theory Spec2Isabelle
  imports Complex_Main "HOL-Library.Sublist"
begin

section \<open>Parity testing harness: the comparison engine and the run orchestrator\<close>

text \<open>
  A shallow embedding of \<^verbatim>\<open>scripts/parity_test.py\<close>: the image metrics
  (\<^verbatim>\<open>calculate_ssim\<close>, \<^verbatim>\<open>calculate_mse\<close>), the comparator
  (\<^verbatim>\<open>compare_screenshots\<close>), the process driver (\<^verbatim>\<open>launch_game_headless\<close>),
  the report writer, the orchestrator (\<^verbatim>\<open>run\<close>) and \<^verbatim>\<open>main\<close>.
  Exceptions are values of a sum type, the tester object and the file system are passed
  explicitly, and the game process is a function of the environment.
\<close>

subsection \<open>Floating-point numbers\<close>

text \<open>
  The metrics are computed by numpy in IEEE 754 binary64. A float operation is the exact
  real operation followed by a rounding; the rounding is a parameter of the model, so that
  a property can be stated for every rounding, for exact arithmetic (\<open>exact\<close>) or for
  round-to-nearest-even at 53 bits (\<open>binary64\<close>, without overflow and subnormal numbers,
  which pixel statistics never reach). \<open>float('inf')\<close> is the extra value \<open>PosInf\<close>.
\<close>

type_synonym rounding = "real \<Rightarrow> real"

definition exact :: rounding where
  "exact v = v"

definition round_half_even :: "real \<Rightarrow> int" where
  "round_half_even v =
     (let f = \<lfloor>v\<rfloor>; r = v - of_int f
      in if r < 1 / 2 then f else if 1 / 2 < r then f + 1 else if even f then f else f + 1)"

definition binary64 :: rounding where
  "binary64 v =
     (if v = 0 then 0
      else let e = \<lfloor>log 2 \<bar>v\<bar>\<rfloor> - 52
           in of_int (round_half_even (v / 2 powr of_int e)) * 2 powr of_int e)"

datatype pyfloat = Finite real | PosInf

subsection \<open>Images (PIL) and arrays (numpy)\<close>

text \<open>
  An image is its mode and its rows of pixels, a pixel being the list of its band values
  (0..255); the modes are those of a TGA file without a palette. \<open>convert_L\<close> is \<^verbatim>\<open>img.convert('L')\<close> followed by \<^verbatim>\<open>np.array\<close>:
  a two-dimensional array of luminances, by Pillow's ITU-R 601-2 transform for colour
  images. \<open>np_array\<close> is \<^verbatim>\<open>np.array(img)\<close>: the shape and the values in row-major order.
\<close>

datatype img_mode = ModeL | ModeLA | ModeRGB | ModeRGBA

record image =
  mode :: img_mode
  pixels :: "nat list list list"

fun bands :: "img_mode \<Rightarrow> nat" where
  "bands ModeL = 1"
| "bands ModeLA = 2"
| "bands ModeRGB = 3"
| "bands ModeRGBA = 4"

definition ncols :: "'a list list \<Rightarrow> nat" where
  "ncols a = (case a of [] \<Rightarrow> 0 | r # _ \<Rightarrow> length r)"

definition nrows :: "'a list list \<Rightarrow> nat" where
  "nrows a = length a"

definition rectangular :: "'a list list \<Rightarrow> bool" where
  "rectangular a \<longleftrightarrow> a \<noteq> [] \<and> 0 < ncols a \<and> list_all (\<lambda>r. length r = ncols a) a"

definition valid_image :: "image \<Rightarrow> bool" where
  "valid_image img \<longleftrightarrow>
     rectangular (pixels img) \<and>
     list_all (list_all (\<lambda>px. length px = bands (mode img) \<and> list_all (\<lambda>v. v < 256) px))
       (pixels img)"

fun luma :: "nat list \<Rightarrow> nat" where
  "luma [l] = l"
| "luma [l, a] = l"
| "luma (r # g # b # _) = (r * 19595 + g * 38470 + b * 7471 + 32768) div 65536"
| "luma [] = 0"

definition convert_L :: "image \<Rightarrow> nat list list" where
  "convert_L img = map (map luma) (pixels img)"

definition np_array :: "image \<Rightarrow> nat list \<times> nat list" where
  "np_array img =
     (let h = nrows (pixels img); w = ncols (pixels img)
      in (if mode img = ModeL then [h, w] else [h, w, bands (mode img)],
          concat (concat (pixels img))))"

text \<open>
  Reductions over all elements. \<open>fsum\<close> adds from left to right, rounding after every
  addition, as numpy does on short arrays (it adds long arrays pairwise; what is proved
  below about sums is that non-negative terms give a non-negative sum and that sums of
  small integers are exact, which holds in either order). \<open>np_mean\<close> and \<open>np_std\<close> follow numpy's \<^verbatim>\<open>_mean\<close> and \<^verbatim>\<open>_var\<close>: the sum
  divided by the count, and the square root of the mean squared deviation from the mean.
\<close>

definition fsum :: "rounding \<Rightarrow> real list \<Rightarrow> real" where
  "fsum fl vs = foldl (\<lambda>acc v. fl (acc + v)) 0 vs"

definition np_mean :: "rounding \<Rightarrow> real list \<Rightarrow> real" where
  "np_mean fl vs = fl (fsum fl vs / real (length vs))"

definition np_std :: "rounding \<Rightarrow> real list \<Rightarrow> real" where
  "np_std fl vs =
     (let arrmean = np_mean fl vs;
          dev = map (\<lambda>v. fl (v - arrmean)) vs;
          sq = map (\<lambda>d. fl (d * d)) dev
      in fl (sqrt (fl (fsum fl sq / real (length vs)))))"

definition to_float :: "nat list list \<Rightarrow> real list list" where
  "to_float a = map (map real) a"

definition sub_scalar :: "rounding \<Rightarrow> real list list \<Rightarrow> real \<Rightarrow> real list list" where
  "sub_scalar fl a m = map (map (\<lambda>v. fl (v - m))) a"

text \<open>
  The product of two arrays broadcasts them: along each axis the lengths are equal or one
  of them is 1, in which case that array is repeated along the axis; otherwise numpy raises
  \<^verbatim>\<open>ValueError: operands could not be broadcast together\<close>.
\<close>

datatype error = ValueError | OSError | IsADirectoryError

definition broadcast_dim :: "nat \<Rightarrow> nat \<Rightarrow> nat option" where
  "broadcast_dim m n =
     (if m = n then Some m else if m = 1 then Some n else if n = 1 then Some m else None)"

definition stretch :: "nat \<Rightarrow> 'a list \<Rightarrow> 'a list" where
  "stretch n vs = (case vs of [v] \<Rightarrow> replicate n v | _ \<Rightarrow> vs)"

definition broadcast_to :: "nat \<Rightarrow> nat \<Rightarrow> 'a list list \<Rightarrow> 'a list list" where
  "broadcast_to h w a = stretch h (map (stretch w) a)"

definition np_multiply ::
  "rounding \<Rightarrow> real list list \<Rightarrow> real list list \<Rightarrow> error + real list list" where
  "np_multiply fl a b =
     (case (broadcast_dim (nrows a) (nrows b), broadcast_dim (ncols a) (ncols b)) of
        (Some h, Some w) \<Rightarrow>
          Inr (map2 (map2 (\<lambda>u v. fl (u * v))) (broadcast_to h w a) (broadcast_to h w b))
      | _ \<Rightarrow> Inl ValueError)"

definition array_equal :: "nat list list \<Rightarrow> nat list list \<Rightarrow> bool" where
  "array_equal a b \<longleftrightarrow> (nrows a, ncols a) = (nrows b, ncols b) \<and> concat a = concat b"

subsection \<open>The metrics\<close>

text \<open>
  \<^verbatim>\<open>calculate_ssim\<close>: the statistics and the product of the deviations are computed
  first (the product raises on shapes that do not broadcast), then the zero-deviation
  test, then the clamped correlation.
\<close>

definition calculate_ssim :: "bool \<Rightarrow> rounding \<Rightarrow> image \<Rightarrow> image \<Rightarrow> error + real" where
  "calculate_ssim has_pil fl img1 img2 =
     (if \<not> has_pil then Inr 0
      else
        let arr1 = convert_L img1;
            arr2 = convert_L img2;
            mean1 = np_mean fl (concat (to_float arr1));
            mean2 = np_mean fl (concat (to_float arr2));
            std1 = np_std fl (concat (to_float arr1));
            std2 = np_std fl (concat (to_float arr2))
        in case np_multiply fl (sub_scalar fl (to_float arr1) mean1)
                  (sub_scalar fl (to_float arr2) mean2) of
             Inl e \<Rightarrow> Inl e
           | Inr product \<Rightarrow>
               let cov = np_mean fl (concat product)
               in if std1 = 0 \<or> std2 = 0
                  then Inr (if array_equal arr1 arr2 then 1 else 0)
                  else Inr (max 0 (min 1 (fl (cov / fl (std1 * std2))))))"

datatype event =
    Launching string | ExeNotFound | ScreenshotCaptured string | ScreenshotNotFound
  | LaunchTimedOut | ProcessKilled | LaunchFailed | Skipping string
  | CannotCompare | Comparing string | TestNotFound | GoldenCreated string | LoadFailed
  | DimensionWarning | Verdict bool | ReportGenerated | Summary nat nat

text \<open>
  \<^verbatim>\<open>calculate_mse\<close> returns what it prints (the warning) and the error score.
\<close>

definition calculate_mse :: "bool \<Rightarrow> rounding \<Rightarrow> image \<Rightarrow> image \<Rightarrow> event list \<times> pyfloat" where
  "calculate_mse has_pil fl img1 img2 =
     (if \<not> has_pil then ([], Finite 0)
      else
        let arr1 = np_array img1; arr2 = np_array img2
        in if fst arr1 \<noteq> fst arr2 then ([DimensionWarning], PosInf)
           else ([], Finite (np_mean fl
                   (map2 (\<lambda>u v. fl (fl (real u - real v) * fl (real u - real v)))
                      (snd arr1) (snd arr2)))))"

subsection \<open>Configuration, results and the world\<close>

record position =
  pos_name :: string
  pos_x :: real
  pos_y :: real
  pos_z :: real
  pos_pitch :: real
  pos_yaw :: real
  ssim_threshold :: "real option"

record ParityConfig =
  map_name :: string
  game_dir :: string
  screenshot_dir :: string
  golden_dir :: string
  test_positions :: "position list"
  cvars :: "(string \<times> string) list"
  timeout :: int

record ComparisonResult =
  result_map_name :: string
  result_position :: string
  ssim :: real
  mse :: pyfloat
  passed :: bool
  threshold :: real

text \<open>
  The file system: regular files by path, and the set of directories. A file holds an
  image, a report or something else. The report keeps the figures the HTML shows.
  \<^verbatim>\<open>Path.exists\<close> holds of files and directories; \<^verbatim>\<open>Image.open\<close> raises on a path that
  holds no image. Creating a directory and saving an image are taken to succeed.
\<close>

record report =
  report_map :: string
  report_total :: nat
  report_passed :: nat
  report_failed :: nat
  report_entries :: "ComparisonResult list"

datatype file_content = ImageFile image | ReportFile report | OtherFile

record filesys =
  files :: "string \<rightharpoonup> file_content"
  dirs :: "string set"

definition join :: "string \<Rightarrow> string \<Rightarrow> string" where
  "join d n = d @ ''/'' @ n"

definition exists :: "filesys \<Rightarrow> string \<Rightarrow> bool" where
  "exists fs p \<longleftrightarrow> files fs p \<noteq> None \<or> p \<in> dirs fs"

definition mkdir :: "string \<Rightarrow> filesys \<Rightarrow> filesys" where
  "mkdir d fs = fs\<lparr>dirs := insert d (dirs fs)\<rparr>"

definition image_open :: "filesys \<Rightarrow> string \<Rightarrow> error + image" where
  "image_open fs p = (case files fs p of Some (ImageFile img) \<Rightarrow> Inr img | _ \<Rightarrow> Inl OSError)"

definition image_save :: "image \<Rightarrow> string \<Rightarrow> filesys \<Rightarrow> filesys" where
  "image_save img p fs = fs\<lparr>files := (files fs)(p \<mapsto> ImageFile img)\<rparr>"

text \<open>
  The game is a black box: started for a position on a file system (its command line is
  built from the configuration and the position), it cannot be started, or it exits within
  the timeout, or it is still running when the timeout expires; in the last two cases it
  leaves a file system behind. The environment of a run is this function, the module's
  \<^verbatim>\<open>HAS_PIL\<close> flag and the rounding of float operations.
\<close>

datatype proc_outcome = StartFailed | Exited filesys | TimedOut filesys

record env =
  HAS_PIL :: bool
  arith :: rounding
  game :: "ParityConfig \<Rightarrow> position \<Rightarrow> filesys \<Rightarrow> proc_outcome"

text \<open>
  The tester: the file system it acts on, \<^verbatim>\<open>self.results\<close>, and what it has printed
  and done to processes so far, in order.
\<close>

record tester =
  fsys :: filesys
  results :: "ComparisonResult list"
  out :: "event list"

definition say :: "event \<Rightarrow> tester \<Rightarrow> tester" where
  "say ev st = st\<lparr>out := out st @ [ev]\<rparr>"

definition screenshot_name :: "ParityConfig \<Rightarrow> position \<Rightarrow> string" where
  "screenshot_name cfg p = map_name cfg @ ''_'' @ pos_name p @ ''.tga''"

subsection \<open>The process driver\<close>

text \<open>
  \<^verbatim>\<open>launch_game_headless\<close>: no executable, then False; the process exits, then whether
  the screenshot exists; \<^verbatim>\<open>TimeoutExpired\<close>, then the process is killed and False; any
  other exception, then False.
\<close>

definition launch_game_headless :: "env \<Rightarrow> ParityConfig \<Rightarrow> position \<Rightarrow> tester \<Rightarrow> tester \<times> bool" where
  "launch_game_headless E cfg p st0 =
     (let st = say (Launching (pos_name p)) st0
      in if \<not> exists (fsys st) (join (game_dir cfg) ''hl2.exe'') \<and>
            \<not> exists (fsys st) (join (game_dir cfg) ''hl2.sh'')
         then (say ExeNotFound st, False)
         else
           case game E cfg p (fsys st) of
             Exited fs' \<Rightarrow>
               if exists fs' (join (screenshot_dir cfg) (screenshot_name cfg p))
               then (say (ScreenshotCaptured (screenshot_name cfg p)) (st\<lparr>fsys := fs'\<rparr>), True)
               else (say ScreenshotNotFound (st\<lparr>fsys := fs'\<rparr>), False)
           | TimedOut fs' \<Rightarrow> (say ProcessKilled (say LaunchTimedOut (st\<lparr>fsys := fs'\<rparr>)), False)
           | StartFailed \<Rightarrow> (say LaunchFailed st, False))"

subsection \<open>The comparator\<close>

text \<open>
  The float literal \<^verbatim>\<open>0.95\<close> is the rounding of 95/100; the literals \<^verbatim>\<open>1.0\<close> and
  \<^verbatim>\<open>0.0\<close> are exact.
\<close>

definition compare_screenshots ::
  "env \<Rightarrow> ParityConfig \<Rightarrow> position \<Rightarrow> tester \<Rightarrow> error + tester \<times> ComparisonResult option" where
  "compare_screenshots E cfg p st0 =
     (if \<not> HAS_PIL E then Inr (say CannotCompare st0, None)
      else
        let test_path = join (screenshot_dir cfg) (screenshot_name cfg p);
            golden_path = join (golden_dir cfg) (screenshot_name cfg p);
            st = say (Comparing (pos_name p)) st0
        in if \<not> exists (fsys st) test_path then Inr (say TestNotFound st, None)
           else if \<not> exists (fsys st) golden_path then
             (case image_open (mkdir (golden_dir cfg) (fsys st)) test_path of
                Inl e \<Rightarrow> Inl e
              | Inr img \<Rightarrow>
                  Inr (say (GoldenCreated (screenshot_name cfg p))
                         (st\<lparr>fsys := image_save img golden_path (mkdir (golden_dir cfg) (fsys st))\<rparr>),
                       Some \<lparr>result_map_name = map_name cfg, result_position = pos_name p,
                             ssim = 1, mse = Finite 0, passed = True, threshold = arith E (95 / 100)\<rparr>))
           else
             case (image_open (fsys st) test_path, image_open (fsys st) golden_path) of
               (Inr img_test, Inr img_golden) \<Rightarrow>
                 (case calculate_ssim (HAS_PIL E) (arith E) img_test img_golden of
                    Inl e \<Rightarrow> Inl e
                  | Inr s \<Rightarrow>
                      let (warnings, m) = calculate_mse (HAS_PIL E) (arith E) img_test img_golden;
                          thr = (case ssim_threshold p of Some t \<Rightarrow> t | None \<Rightarrow> arith E (95 / 100));
                          ok = (s \<ge> thr)
                      in Inr (say (Verdict ok) (st\<lparr>out := out st @ warnings\<rparr>),
                              Some \<lparr>result_map_name = map_name cfg, result_position = pos_name p,
                                    ssim = s, mse = m, passed = ok, threshold = thr\<rparr>))
             | _ \<Rightarrow> Inr (say LoadFailed st, None))"

subsection \<open>The report, the orchestrator and main\<close>

text \<open>
  \<^verbatim>\<open>generate_report\<close> builds the page and opens the report path for writing, outside
  any \<^verbatim>\<open>try\<close>; opening a path that is a directory raises.
\<close>

definition generate_report :: "ParityConfig \<Rightarrow> tester \<Rightarrow> error + tester" where
  "generate_report cfg st =
     (let report_path = join (screenshot_dir cfg) ''parity_report.html'';
          html = \<lparr>report_map = map_name cfg, report_total = length (results st),
                   report_passed = length (filter passed (results st)),
                   report_failed = length (filter (\<lambda>r. \<not> passed r) (results st)),
                   report_entries = results st\<rparr>
      in if report_path \<in> dirs (fsys st) then Inl IsADirectoryError
         else Inr (say ReportGenerated
                (st\<lparr>fsys := (fsys st)\<lparr>files := (files (fsys st))(report_path \<mapsto> ReportFile html)\<rparr>\<rparr>)))"

definition print_summary :: "tester \<Rightarrow> tester" where
  "print_summary st = say (Summary (length (results st)) (length (filter passed (results st)))) st"

fun run_positions :: "env \<Rightarrow> ParityConfig \<Rightarrow> position list \<Rightarrow> tester \<Rightarrow> error + tester" where
  "run_positions E cfg [] st = Inr st"
| "run_positions E cfg (p # ps) st =
     (case launch_game_headless E cfg p st of
        (st1, False) \<Rightarrow> run_positions E cfg ps (say (Skipping (pos_name p)) st1)
      | (st1, True) \<Rightarrow>
          (case compare_screenshots E cfg p st1 of
             Inl e \<Rightarrow> Inl e
           | Inr (st2, None) \<Rightarrow> run_positions E cfg ps st2
           | Inr (st2, Some r) \<Rightarrow> run_positions E cfg ps (st2\<lparr>results := results st2 @ [r]\<rparr>)))"

definition run :: "env \<Rightarrow> ParityConfig \<Rightarrow> tester \<Rightarrow> error + tester \<times> bool" where
  "run E cfg st0 =
     (let st = st0\<lparr>fsys := mkdir (golden_dir cfg) (mkdir (screenshot_dir cfg) (fsys st0))\<rparr>
      in case run_positions E cfg (test_positions cfg) st of
           Inl e \<Rightarrow> Inl e
         | Inr st1 \<Rightarrow>
             (case (if results st1 \<noteq> [] then generate_report cfg st1 else Inr st1) of
                Inl e \<Rightarrow> Inl e
              | Inr st2 \<Rightarrow> Inr (print_summary st2, list_all passed (results st2))))"

text \<open>
  \<^verbatim>\<open>main\<close>: the configuration file is missing (exit 1), cannot be loaded (the
  exception ends the process with status 1) or gives the configuration; a fresh tester
  runs, and an exception that leaves \<^verbatim>\<open>run\<close> ends the process with status 1.
\<close>

datatype config_file = Missing | Malformed | Loaded ParityConfig

definition new_tester :: "filesys \<Rightarrow> tester" where
  "new_tester fs = \<lparr>fsys = fs, results = [], out = []\<rparr>"

definition main :: "env \<Rightarrow> filesys \<Rightarrow> config_file \<Rightarrow> nat" where
  "main E fs cf =
     (case cf of
        Missing \<Rightarrow> 1
      | Malformed \<Rightarrow> 1
      | Loaded cfg \<Rightarrow>
          (case run E cfg (new_tester fs) of
             Inl e \<Rightarrow> 1
           | Inr (st, success) \<Rightarrow> if success then 0 else 1))"

subsection \<open>The similarity metric as the specification words it\<close>

text \<open>
  The specification's algorithm, on the two luminance fields as flat lists: the mean and the
  standard deviation of each, the covariance of the two, 1 or 0 when a deviation is exactly
  zero (1 when the fields are identical), and otherwise the covariance over the product of
  the deviations, clamped into the unit interval. This definition is written from the
  specification, to be compared with \<open>calculate_ssim\<close>.
\<close>

definition luminance :: "image \<Rightarrow> real list" where
  "luminance img = map real (concat (convert_L img))"

definition similarity_spec :: "rounding \<Rightarrow> real list \<Rightarrow> real list \<Rightarrow> real" where
  "similarity_spec fl xs ys =
     (let mean1 = np_mean fl xs; mean2 = np_mean fl ys;
          std1 = np_std fl xs; std2 = np_std fl ys;
          covariance = np_mean fl (map2 (\<lambda>u v. fl (fl (u - mean1) * fl (v - mean2))) xs ys)
      in if std1 = 0 \<or> std2 = 0 then (if xs = ys then 1 else 0)
         else let c = fl (covariance / fl (std1 * std2))
              in if c < 0 then 0 else if 1 < c then 1 else c)"

subsection \<open>Concrete inputs\<close>

text \<open>
  Three greyscale images: a 2x2 image with luminances 0, 2, 4, 2 (variance 2), a 3x3 image
  and a flat 2x2 image.
\<close>

definition img_2x2 :: image where
  "img_2x2 = \<lparr>mode = ModeL, pixels = [[[0], [2]], [[4], [2]]]\<rparr>"

definition img_3x3 :: image where
  "img_3x3 = \<lparr>mode = ModeL, pixels = [[[1], [2], [3]], [[4], [5], [6]], [[7], [8], [9]]]\<rparr>"

definition img_flat :: image where
  "img_flat = \<lparr>mode = ModeL, pixels = [[[5], [5]], [[5], [5]]]\<rparr>"

text \<open>
  A configuration with an installed game, positions with and without a threshold, games
  that write a given image as the screenshot of the position or hang at position \<open>b\<close>,
  and file systems with the game installed, with a captured screenshot and with a golden
  image.
\<close>

definition cfg_of :: "position list \<Rightarrow> ParityConfig" where
  "cfg_of ps = \<lparr>map_name = ''pl'', game_dir = ''game'', screenshot_dir = ''shots'',
     golden_dir = ''golden'', test_positions = ps, cvars = [], timeout = 30\<rparr>"

definition pos_at :: "string \<Rightarrow> real option \<Rightarrow> position" where
  "pos_at n t = \<lparr>pos_name = n, pos_x = 0, pos_y = 0, pos_z = 0, pos_pitch = 0, pos_yaw = 0,
     ssim_threshold = t\<rparr>"

definition fs_installed :: filesys where
  "fs_installed = \<lparr>files = [''game/hl2.sh'' \<mapsto> OtherFile], dirs = {''game''}\<rparr>"

definition fs_captured :: "image \<Rightarrow> filesys" where
  "fs_captured img = image_save img ''shots/pl_a.tga'' fs_installed"

definition fs_both :: "image \<Rightarrow> image \<Rightarrow> filesys" where
  "fs_both img_test img_golden = image_save img_golden ''golden/pl_a.tga'' (fs_captured img_test)"


definition game_captures :: "image \<Rightarrow> ParityConfig \<Rightarrow> position \<Rightarrow> filesys \<Rightarrow> proc_outcome" where
  "game_captures img cfg p fs =
     Exited (image_save img (join (screenshot_dir cfg) (screenshot_name cfg p)) fs)"


definition env_of :: "bool \<Rightarrow> (ParityConfig \<Rightarrow> position \<Rightarrow> filesys \<Rightarrow> proc_outcome) \<Rightarrow> env" where
  "env_of has_pil g = \<lparr>HAS_PIL = has_pil, arith = binary64, game = g\<rparr>"

lemma round_half_even_error: "\<bar>of_int (round_half_even v) - v\<bar> \<le> 1 / 2"
proof -
  have "of_int \<lfloor>v\<rfloor> \<le> v" "v < of_int \<lfloor>v\<rfloor> + 1" by linarith+
  then show ?thesis
    unfolding round_half_even_def Let_def by (auto simp: abs_le_iff)
qed

lemma round_half_even_near:
  assumes "\<bar>v - of_int m\<bar> < 1 / 2"
  shows "round_half_even v = m"
proof (cases "of_int m \<le> v")
  case True
  with assms have "\<lfloor>v\<rfloor> = m" by (intro floor_unique) (auto simp: abs_less_iff)
  with assms True show ?thesis
    unfolding round_half_even_def Let_def by (auto simp: abs_less_iff)
next
  case False
  with assms have "\<lfloor>v\<rfloor> = m - 1" by (intro floor_unique) (auto simp: abs_less_iff)
  with assms False show ?thesis
    unfolding round_half_even_def Let_def by (auto simp: abs_less_iff)
qed

lemma binary64_value:
  assumes "2 powr (of_int k + 52) \<le> \<bar>v\<bar>" and "\<bar>v\<bar> < 2 powr (of_int k + 53)"
    and "\<bar>v / 2 powr of_int k - of_int m\<bar> < 1 / 2"
  shows "binary64 v = of_int m * 2 powr of_int k"
proof -
  have pos: "0 < \<bar>v\<bar>" using assms(1) by (smt (verit) powr_gt_zero)
  then have nz: "v \<noteq> 0" by simp
  have "\<lfloor>log 2 \<bar>v\<bar>\<rfloor> = k + 52"
  proof (rule floor_unique)
    show "of_int (k + 52) \<le> log 2 \<bar>v\<bar>"
      using assms(1) pos by (simp add: le_log_iff)
    show "log 2 \<bar>v\<bar> < of_int (k + 52) + 1"
      using assms(2) pos by (simp add: log_less_iff add.commute add.left_commute)
  qed
  then show ?thesis
    using nz round_half_even_near[OF assms(3)] by (simp add: binary64_def Let_def)
qed

lemma binary64_relative_error: "\<bar>binary64 v - v\<bar> \<le> \<bar>v\<bar> / 2 ^ 53"
proof (cases "v = 0")
  case True
  then show ?thesis by (simp add: binary64_def)
next
  case False
  define E where "E = \<lfloor>log 2 \<bar>v\<bar>\<rfloor>"
  define s :: real where "s = 2 powr of_int (E - 52)"
  have spos: "0 < s" by (simp add: s_def)
  have "of_int E \<le> log 2 \<bar>v\<bar>" by (simp add: E_def)
  then have "2 powr of_int E \<le> \<bar>v\<bar>"
    using False by (simp add: le_log_iff)
  moreover have "2 powr of_int E = s * 2 ^ 52"
    by (simp add: s_def powr_diff)
  ultimately have big: "s * 2 ^ 52 \<le> \<bar>v\<bar>" by simp
  have b: "binary64 v = of_int (round_half_even (v / s)) * s"
    using False by (simp add: binary64_def Let_def E_def s_def)
  have "binary64 v - v = (of_int (round_half_even (v / s)) - v / s) * s"
    using spos by (simp add: b field_simps)
  then have "\<bar>binary64 v - v\<bar> = \<bar>of_int (round_half_even (v / s)) - v / s\<bar> * s"
    using spos by (simp add: abs_mult)
  also have "\<dots> \<le> (1 / 2) * s"
    using round_half_even_error[of "v / s"] spos by (intro mult_right_mono) auto
  also have "\<dots> \<le> \<bar>v\<bar> / 2 ^ 53"
    using big by (simp add: field_simps)
  finally show ?thesis .
qed

lemma binary64_of_int:
  assumes "\<bar>i\<bar> < 2 ^ 53"
  shows "binary64 (of_int i) = of_int i"
proof (cases "i = 0")
  case True
  then show ?thesis by (simp add: binary64_def)
next
  case False
  define E where "E = \<lfloor>log 2 \<bar>real_of_int i\<bar>\<rfloor>"
  have one: "1 \<le> \<bar>real_of_int i\<bar>" using False by (simp flip: of_int_abs)
  have "of_int E \<le> log 2 \<bar>real_of_int i\<bar>" by (simp add: E_def)
  then have lo: "2 powr of_int E \<le> \<bar>real_of_int i\<bar>"
    using one by (simp add: le_log_iff)
  have "log 2 \<bar>real_of_int i\<bar> < of_int E + 1" unfolding E_def by linarith
  then have hi: "\<bar>real_of_int i\<bar> < 2 powr (of_int E + 1)"
    using one by (simp add: log_less_iff)
  have "0 \<le> log 2 \<bar>real_of_int i\<bar>" using one by simp
  then have E0: "0 \<le> E" by (simp add: E_def)
  have "\<bar>real_of_int i\<bar> < 2 ^ 53"
    using assms by (simp flip: of_int_abs add: of_int_less_numeral_power_cancel_iff)
  then have "log 2 \<bar>real_of_int i\<bar> < 53"
    using one by (simp add: log_less_iff)
  with \<open>of_int E \<le> log 2 \<bar>real_of_int i\<bar>\<close> have E52: "E \<le> 52" by linarith
  define n where "n = nat (52 - E)"
  have k: "of_int (E - 52) = - real n" using E52 by (simp add: n_def)
  have p: "2 powr of_int (E - 52) = 1 / (2::real) ^ n"
    unfolding k by (simp add: powr_minus powr_realpow field_simps)
  then have p': "2 powr (real_of_int E - 52) = 1 / (2::real) ^ n" by simp
  have "binary64 (of_int i) = of_int (i * 2 ^ n) * 2 powr of_int (E - 52)"
  proof (rule binary64_value)
    show "2 powr (of_int (E - 52) + 52) \<le> \<bar>real_of_int i\<bar>" using lo by simp
    show "\<bar>real_of_int i\<bar> < 2 powr (of_int (E - 52) + 53)"
      using hi by (simp add: algebra_simps)
    show "\<bar>real_of_int i / 2 powr of_int (E - 52) - of_int (i * 2 ^ n)\<bar> < 1 / 2"
      by (simp add: p')
  qed
  then show ?thesis by (simp add: p')
qed

lemma binary64_numeral [simp]:
  "numeral n < (2::int) ^ 53 \<Longrightarrow> binary64 (numeral n) = numeral n"
  "numeral n < (2::int) ^ 53 \<Longrightarrow> binary64 (- numeral n) = - numeral n"
  "binary64 0 = 0" "binary64 1 = 1"
  using binary64_of_int[of "numeral n"] binary64_of_int[of "- numeral n"]
    binary64_of_int[of 0] binary64_of_int[of 1]
  by simp_all

lemma binary64_sqrt2: "binary64 (sqrt 2) = 6369051672525773 / 2 ^ 52"
proof -
  have "sqrt 2 * c = sqrt (2 * (c * c))" if "0 \<le> c" for c :: real
    using that by (simp add: real_sqrt_mult)
  from this[of "2 ^ 52"] have s: "sqrt 2 * 2 ^ 52 = sqrt (2 * 2 ^ 104)"
    by simp
  have lo: "6369051672525773 - 1 / 2 < sqrt 2 * (2::real) ^ 52"
    unfolding s by (rule real_less_rsqrt) (simp add: power2_eq_square)
  have hi: "sqrt 2 * (2::real) ^ 52 < 6369051672525773 + 1 / 2"
    unfolding s by (rule real_less_lsqrt) (simp_all add: power2_eq_square)
  have "binary64 (sqrt 2) = of_int 6369051672525773 * 2 powr of_int (- 52)"
  proof (rule binary64_value)
    have "1 \<le> sqrt 2" "sqrt 2 < 2"
      by (simp_all add: real_less_lsqrt)
    then show "2 powr (of_int (- 52) + 52) \<le> \<bar>sqrt 2\<bar>"
      and "\<bar>sqrt 2\<bar> < 2 powr (of_int (- 52) + 53)" by simp_all
    have "\<bar>sqrt 2 * 2 ^ 52 - 6369051672525773\<bar> < 1 / 2"
      using lo hi by linarith
    moreover have "sqrt 2 / 2 powr of_int (- 52) = sqrt 2 * 2 ^ 52"
      by (simp add: powr_minus_divide)
    ultimately show "\<bar>sqrt 2 / 2 powr of_int (- 52) - of_int 6369051672525773\<bar> < 1 / 2"
      by simp
  qed
  then show ?thesis by (simp add: powr_minus_divide)
qed

lemma binary64_sqrt2_squared:
  "binary64 (6369051672525773 / 2 ^ 52 * (6369051672525773 / 2 ^ 52)) = 4503599627370497 / 2 ^ 51"
proof -
  have "binary64 (6369051672525773 / 2 ^ 52 * (6369051672525773 / 2 ^ 52))
      = of_int 4503599627370497 * 2 powr of_int (- 51)"
    by (rule binary64_value) (simp_all add: abs_less_iff powr_minus_divide)
  then show ?thesis by (simp add: powr_minus_divide)
qed

lemma binary64_quotient:
  "binary64 (2 / (4503599627370497 / 2 ^ 51)) = 1 - 1 / 2 ^ 52"
proof -
  have "binary64 (2 / (4503599627370497 / 2 ^ 51))
      = of_int 9007199254740990 * 2 powr of_int (- 53)"
    by (rule binary64_value) (simp_all add: abs_less_iff powr_minus_divide)
  then show ?thesis by (simp add: powr_minus_divide)
qed

lemma binary64_default_threshold:
  "9 / 10 < binary64 (95 / 100)" "binary64 (95 / 100) \<le> 1 - 1 / 2 ^ 51"
proof -
  have "\<bar>binary64 (95 / 100) - 95 / 100\<bar> \<le> 1 / 2 ^ 53"
    using binary64_relative_error[of "95 / 100"] by simp
  then have "95 / 100 - 1 / 2 ^ 53 \<le> binary64 (95 / 100)"
    "binary64 (95 / 100) \<le> 95 / 100 + 1 / 2 ^ 53"
    unfolding abs_le_iff by linarith+
  then show "9 / 10 < binary64 (95 / 100)" "binary64 (95 / 100) \<le> 1 - 1 / 2 ^ 51"
    by simp_all
qed

lemma nrows_map [simp]: "nrows (map f a) = nrows a"
  by (simp add: nrows_def)

lemma ncols_map_map [simp]: "ncols (map (map f) a) = ncols a"
  by (cases a) (simp_all add: ncols_def)

lemma rectangular_map_map [simp]: "rectangular (map (map f) a) = rectangular a"
  by (simp add: rectangular_def list_all_iff)

lemma stretch_same: "length vs = n \<Longrightarrow> stretch n vs = vs"
  by (auto simp: stretch_def split: list.splits)

lemma broadcast_to_same:
  assumes "rectangular a"
  shows "broadcast_to (nrows a) (ncols a) a = a"
proof -
  have "map (stretch (ncols a)) a = a"
    using assms by (intro map_idI) (auto simp: rectangular_def list_all_iff stretch_same)
  then show ?thesis
    by (simp add: broadcast_to_def stretch_same nrows_def)
qed

lemma broadcast_dim_same [simp]: "broadcast_dim n n = Some n"
  by (simp add: broadcast_dim_def)

lemma concat_map2_map2:
  assumes "list_all2 (\<lambda>r s. length r = length s) a b"
  shows "concat (map2 (map2 f) a b) = map2 f (concat a) (concat b)"
  using assms by (induction a b rule: list_all2_induct) (simp_all add: zip_append)

lemma rectangular_rows_match:
  assumes "rectangular a" "rectangular b" "nrows a = nrows b" "ncols a = ncols b"
  shows "list_all2 (\<lambda>r s. length r = length s) a b"
  using assms
  by (auto simp: rectangular_def nrows_def list_all_iff list_all2_conv_all_nth)

lemma np_multiply_same_shape:
  assumes "rectangular a" "rectangular b" "nrows a = nrows b" "ncols a = ncols b"
  shows "np_multiply fl a b = Inr (map2 (map2 (\<lambda>u v. fl (u * v))) a b)"
  using assms broadcast_to_same[of a] broadcast_to_same[of b]
  by (simp add: np_multiply_def)

lemma deviation_product_same_shape:
  assumes "rectangular a" "rectangular b" "nrows a = nrows b" "ncols a = ncols b"
  shows "\<exists>pr. np_multiply fl (sub_scalar fl (to_float a) m1) (sub_scalar fl (to_float b) m2) = Inr pr \<and>
     concat pr = map2 (\<lambda>u v. fl (fl (u - m1) * fl (v - m2)))
                   (map real (concat a)) (map real (concat b))"
proof -
  let ?a = "map (map (\<lambda>v. fl (real v - m1))) a" and ?b = "map (map (\<lambda>v. fl (real v - m2))) b"
  have ab: "sub_scalar fl (to_float a) m1 = ?a" "sub_scalar fl (to_float b) m2 = ?b"
    by (simp_all add: sub_scalar_def to_float_def comp_def)
  have m: "np_multiply fl ?a ?b = Inr (map2 (map2 (\<lambda>u v. fl (u * v))) ?a ?b)"
    using assms by (intro np_multiply_same_shape) simp_all
  have "list_all2 (\<lambda>r s. length r = length s) ?a ?b"
    using assms by (intro rectangular_rows_match) simp_all
  then have "concat (map2 (map2 (\<lambda>u v. fl (u * v))) ?a ?b)
      = map2 (\<lambda>u v. fl (u * v)) (concat ?a) (concat ?b)"
    by (rule concat_map2_map2)
  also have "\<dots> = map2 (\<lambda>u v. fl (fl (u - m1) * fl (v - m2)))
                   (map real (concat a)) (map real (concat b))"
    by (simp add: map_concat[symmetric] zip_map_map case_prod_unfold)
  finally show ?thesis using m ab by simp
qed

lemma valid_image_luminance:
  assumes "valid_image img"
  shows "rectangular (convert_L img)" "nrows (convert_L img) = nrows (pixels img)"
    "ncols (convert_L img) = ncols (pixels img)"
    "concat (to_float (convert_L img)) = luminance img"
  using assms
  by (simp_all add: valid_image_def convert_L_def luminance_def to_float_def map_concat)


lemma calculate_ssim_same_shape:
  assumes "valid_image img1" "valid_image img2"
    and "nrows (pixels img1) = nrows (pixels img2)" "ncols (pixels img1) = ncols (pixels img2)"
  shows "calculate_ssim True fl img1 img2
    = Inr (similarity_spec fl (luminance img1) (luminance img2))"
proof -
  note v1 = valid_image_luminance[OF assms(1)] and v2 = valid_image_luminance[OF assms(2)]
  obtain pr where pr:
    "np_multiply fl (sub_scalar fl (to_float (convert_L img1)) (np_mean fl (luminance img1)))
       (sub_scalar fl (to_float (convert_L img2)) (np_mean fl (luminance img2))) = Inr pr"
    "concat pr = map2 (\<lambda>u v. fl (fl (u - np_mean fl (luminance img1)) * fl (v - np_mean fl (luminance img2))))
       (luminance img1) (luminance img2)"
    using deviation_product_same_shape[OF v1(1) v2(1), of fl "np_mean fl (luminance img1)"
        "np_mean fl (luminance img2)"] assms(3,4) v1(2,3) v2(2,3)
    by (auto simp: luminance_def)
  have eq: "array_equal (convert_L img1) (convert_L img2) \<longleftrightarrow> luminance img1 = luminance img2"
    using assms(3,4) v1(2,3) v2(2,3)
    by (simp add: array_equal_def luminance_def inj_map_eq_map)
  have clamp: "max 0 (min 1 c) = (if c < 0 then 0 else if 1 < c then 1 else c)" for c :: real
    by auto
  show ?thesis
    unfolding calculate_ssim_def similarity_spec_def Let_def
    by (simp add: v1(4) v2(4) pr eq clamp)
qed

lemma valid_img_2x2: "valid_image img_2x2"
  by (simp add: valid_image_def img_2x2_def rectangular_def ncols_def)


lemma ssim_shape_mismatch: "calculate_ssim True fl img_2x2 img_3x3 = Inl ValueError"
  by (simp add: calculate_ssim_def Let_def np_multiply_def broadcast_dim_def nrows_def
      ncols_def sub_scalar_def to_float_def convert_L_def img_2x2_def img_3x3_def)

lemma rounding_zero:
  fixes fl :: rounding and u :: real
  assumes rel: "\<And>v. \<bar>fl v - v\<bar> \<le> u * \<bar>v\<bar>"
  shows "fl 0 = 0"
  using rel[of 0] by simp

lemma rounding_sign:
  fixes fl :: rounding and u :: real
  assumes rel: "\<And>v. \<bar>fl v - v\<bar> \<le> u * \<bar>v\<bar>" and u: "0 \<le> u" "u \<le> 1"
    and w: "0 \<le> w"
  shows "0 \<le> fl w"
proof -
  have "u * w \<le> w" using u w by (simp add: mult_left_le_one_le)
  then show "0 \<le> fl w" using rel[of w] w by (simp add: abs_le_iff)
qed

lemma fsum_nonneg:
  fixes fl :: rounding and u :: real
  assumes rel: "\<And>v. \<bar>fl v - v\<bar> \<le> u * \<bar>v\<bar>" and u: "0 \<le> u" "u \<le> 1"
    and "list_all (\<lambda>v. 0 \<le> v) vs"
  shows "0 \<le> fsum fl vs"
proof -
  have "0 \<le> acc \<Longrightarrow> list_all (\<lambda>v. 0 \<le> v) vs \<Longrightarrow> 0 \<le> foldl (\<lambda>acc v. fl (acc + v)) acc vs" for acc
    by (induction vs arbitrary: acc) (simp_all add: rounding_sign[OF rel u])
  then show ?thesis using assms(4) by (simp add: fsum_def)
qed

lemma self_ratio_bound:
  fixes fl :: rounding and u :: real
  assumes rel: "\<And>v. \<bar>fl v - v\<bar> \<le> u * \<bar>v\<bar>" and u: "0 \<le> u" "u \<le> 1 / 4"
    and var: "0 \<le> var" and s: "fl (sqrt var) \<noteq> 0"
  shows "1 - 4 * u \<le> fl (var / fl (fl (sqrt var) * fl (sqrt var)))"
proof -
  define r where "r = sqrt var"
  define s where "s = fl r"
  define p where "p = fl (s * s)"
  have "var \<noteq> 0" using s rounding_zero[of fl u] rel by auto
  with var have vpos: "0 < var" by simp
  then have rpos: "0 < r" by (simp add: r_def)
  have rr: "r * r = var" using var by (simp add: r_def)
  have s_bounds: "(1 - u) * r \<le> s" "s \<le> (1 + u) * r"
    using rel[of r] rpos by (simp_all add: s_def abs_le_iff algebra_simps)
  have "0 < (1 - u) * r" using u rpos by simp
  with s_bounds have spos: "0 < s" by linarith
  have p_bounds: "(1 - u) * (s * s) \<le> p" "p \<le> (1 + u) * (s * s)"
    using rel[of "s * s"] spos by (simp_all add: p_def abs_le_iff algebra_simps)
  have "0 < (1 - u) * (s * s)" using u spos by simp
  with p_bounds have ppos: "0 < p" by linarith
  have "s * s \<le> ((1 + u) * r) * ((1 + u) * r)"
    using s_bounds spos by (intro mult_mono) auto
  then have "(1 + u) * (s * s) \<le> (1 + u) * (((1 + u) * r) * ((1 + u) * r))"
    using u by (intro mult_left_mono) auto
  also have "\<dots> = (1 + u) ^ 3 * var"
    by (simp add: rr[symmetric] power3_eq_cube algebra_simps)
  finally have p_le: "p \<le> (1 + u) ^ 3 * var" using p_bounds by linarith
  have cpos: "0 < (1 + u) ^ 3" using u by simp
  have "var / ((1 + u) ^ 3 * var) \<le> var / p"
    using p_le ppos vpos by (intro divide_left_mono) auto
  then have ratio: "1 / (1 + u) ^ 3 \<le> var / p" using vpos by simp
  define q where "q = var / p"
  have qpos: "0 < q" using vpos ppos by (simp add: q_def)
  have "(1 - u) * q \<le> fl q"
    using rel[of q] qpos by (simp add: abs_le_iff algebra_simps)
  moreover have "(1 - u) * (1 / (1 + u) ^ 3) \<le> (1 - u) * q"
    using ratio u unfolding q_def by (intro mult_left_mono) auto
  moreover have "1 - 4 * u \<le> (1 - u) * (1 / (1 + u) ^ 3)"
  proof -
    have "(1 - u) - (1 - 4 * u) * (1 + u) ^ 3 = u * u * (9 + 11 * u + 4 * (u * u))"
      by (simp add: power3_eq_cube algebra_simps)
    moreover have "0 \<le> u * u * (9 + 11 * u + 4 * (u * u))" using u by simp
    ultimately have "(1 - 4 * u) * (1 + u) ^ 3 \<le> 1 - u" by linarith
    then have "1 - 4 * u \<le> (1 - u) / (1 + u) ^ 3"
      using cpos by (simp add: pos_le_divide_eq)
    then show ?thesis by simp
  qed
  ultimately have "1 - 4 * u \<le> fl q" by linarith
  then show ?thesis unfolding q_def p_def s_def r_def .
qed

lemma self_similarity_bound:
  fixes fl :: rounding and u :: real
  assumes rel: "\<And>v. \<bar>fl v - v\<bar> \<le> u * \<bar>v\<bar>" and u: "0 \<le> u" "u \<le> 1 / 4"
    and "valid_image img"
  shows "\<exists>s. calculate_ssim True fl img img = Inr s \<and> 1 - 4 * u \<le> s \<and> s \<le> 1 \<and>
           (np_std fl (luminance img) = 0 \<longrightarrow> s = 1)"
proof -
  define xs where "xs = luminance img"
  define m where "m = np_mean fl xs"
  define sq where "sq = map (\<lambda>v. fl (fl (v - m) * fl (v - m))) xs"
  define var where "var = np_mean fl sq"
  define sd where "sd = np_std fl xs"
  have u1: "u \<le> 1" using u by simp
  have cov: "map2 (\<lambda>a b. fl (fl (a - m) * fl (b - m))) xs xs = sq"
    by (simp add: sq_def zip_same_conv_map comp_def)
  have std: "sd = fl (sqrt var)"
    by (simp add: sd_def np_std_def Let_def var_def np_mean_def sq_def m_def comp_def)
  have "list_all (\<lambda>v. 0 \<le> v) sq"
    by (simp add: sq_def list_all_iff rounding_sign[OF rel u(1) u1])
  then have "0 \<le> fsum fl sq" by (rule fsum_nonneg[OF rel u(1) u1])
  then have var: "0 \<le> var"
    unfolding var_def np_mean_def by (intro rounding_sign[OF rel u(1) u1]) simp
  have spec: "calculate_ssim True fl img img = Inr (similarity_spec fl xs xs)"
    unfolding xs_def using assms(4) by (intro calculate_ssim_same_shape) simp_all
  have val: "similarity_spec fl xs xs =
      (if sd = 0 then 1 else max 0 (min 1 (fl (var / fl (sd * sd)))))"
    unfolding similarity_spec_def Let_def m_def[symmetric] cov sd_def[symmetric] var_def[symmetric]
    by auto
  show ?thesis
  proof (cases "sd = 0")
    case True
    then show ?thesis using u
      by (simp add: spec val xs_def[symmetric] sd_def[symmetric])
  next
    case False
    then have "fl (sqrt var) \<noteq> 0" by (simp add: std)
    then have "1 - 4 * u \<le> fl (var / fl (sd * sd))"
      unfolding std by (rule self_ratio_bound[OF rel u var])
    then show ?thesis using False u
      by (simp add: spec val xs_def[symmetric] sd_def[symmetric])
  qed
qed

lemma binary64_rel: "\<bar>binary64 v - v\<bar> \<le> (1 / 2 ^ 53) * \<bar>v\<bar>"
  using binary64_relative_error[of v] by simp

lemma exact_rel: "\<bar>exact v - v\<bar> \<le> 0 * \<bar>v\<bar>"
  by (simp add: exact_def)

lemma luminance_img_2x2: "luminance img_2x2 = [0, 2, 4, 2]"
  by (simp add: luminance_def convert_L_def img_2x2_def)

lemma mean_2x2: "np_mean binary64 [0, 2, 4, 2] = 2"
  by (simp add: np_mean_def fsum_def)

lemma std_2x2: "np_std binary64 [0, 2, 4, 2] = 6369051672525773 / 2 ^ 52"
  by (simp add: np_std_def Let_def mean_2x2 fsum_def binary64_sqrt2)

lemma cov_2x2:
  "np_mean binary64 (map2 (\<lambda>u v. binary64 (binary64 (u - 2) * binary64 (v - 2)))
     [0, 2, 4, 2] [0, 2, 4, 2]) = 2"
  by (simp add: np_mean_def fsum_def)

lemma similarity_2x2:
  "similarity_spec binary64 [0, 2, 4, 2] [0, 2, 4, 2] = 1 - 1 / 2 ^ 52"
  unfolding similarity_spec_def Let_def mean_2x2 std_2x2 cov_2x2
    binary64_sqrt2_squared binary64_quotient
  by simp

lemma ssim_2x2: "calculate_ssim True binary64 img_2x2 img_2x2 = Inr (1 - 1 / 2 ^ 52)"
  using calculate_ssim_same_shape[OF valid_img_2x2 valid_img_2x2, of binary64]
  by (simp add: luminance_img_2x2 similarity_2x2)

lemma foldl_binary64_replicate:
  assumes "(k + n) * c < 2 ^ 53"
  shows "foldl (\<lambda>acc v. binary64 (acc + v)) (real (k * c)) (replicate n (real c))
    = real ((k + n) * c)"
  using assms
proof (induction n arbitrary: k)
  case 0
  then show ?case by simp
next
  case (Suc n)
  have "int (Suc k * c) < 2 ^ 53"
  proof -
    have "Suc k * c \<le> (k + Suc n) * c" by (intro mult_le_mono1) simp
    with Suc.prems have "Suc k * c < 2 ^ 53" by linarith
    then show ?thesis by (metis of_nat_less_numeral_power_cancel_iff)
  qed
  then have "binary64 (of_int (int (Suc k * c))) = of_int (int (Suc k * c))"
    by (intro binary64_of_int) simp
  then have step: "binary64 (real (k * c) + real c) = real (Suc k * c)"
    by (simp add: algebra_simps)
  have "(Suc k + n) * c < 2 ^ 53" using Suc.prems by simp
  from Suc.IH[OF this]
  have "foldl (\<lambda>acc v. binary64 (acc + v)) (real (Suc k * c)) (replicate n (real c))
    = real ((k + Suc n) * c)" by simp
  then show ?case
    by (simp only: replicate_Suc foldl_Cons step)
qed

lemma np_std_flat:
  assumes "0 < n" "n * c < 2 ^ 53"
  shows "np_std binary64 (replicate n (real c)) = 0"
proof -
  have s: "fsum binary64 (replicate n (real c)) = real (n * c)"
    using foldl_binary64_replicate[of 0 n c] assms(2) by (simp add: fsum_def)
  have "int c < 2 ^ 53"
  proof -
    have "c \<le> n * c" using assms(1) by simp
    with assms(2) have "c < 2 ^ 53" by linarith
    then show ?thesis by (metis of_nat_less_numeral_power_cancel_iff)
  qed
  then have "binary64 (of_int (int c)) = of_int (int c)" by (intro binary64_of_int) simp
  then have m: "np_mean binary64 (replicate n (real c)) = real c"
    using assms(1) by (simp add: np_mean_def s)
  have z: "fsum binary64 (replicate n 0) = 0"
    using foldl_binary64_replicate[of 0 n 0] by (simp add: fsum_def)
  show ?thesis
    by (simp add: np_std_def Let_def m z)
qed

lemma flat_list_replicate:
  "list_all (\<lambda>v. v = c) ls \<Longrightarrow> map real ls = replicate (length ls) (real c)"
  by (induction ls) simp_all

lemma say_simps [simp]:
  "fsys (say ev st) = fsys st" "results (say ev st) = results st"
  "out (say ev st) = out st @ [ev]"
  by (simp_all add: say_def)


lemma launch_results [simp]: "results (fst (launch_game_headless E cfg p st)) = results st"
  by (simp add: launch_game_headless_def Let_def split: proc_outcome.splits)






section \<open>The claims\<close>

subsection \<open>The similarity metric\<close>

lemma valid_img_flat: "valid_image img_flat"
  by (simp add: valid_image_def img_flat_def rectangular_def ncols_def)

lemma luminance_img_flat: "luminance img_flat = [5, 5, 5, 5]"
  by (simp add: luminance_def convert_L_def img_flat_def)

lemma std_flat: "np_std binary64 [5, 5, 5, 5] = 0"
  by (simp add: np_std_def Let_def np_mean_def fsum_def)




text \<open>
  C8, as amended. For every valid image, comparing the image with itself returns a number
  between \<open>1 - 2\<^sup>-\<^sup>5\<^sup>1\<close> and 1 in binary64 arithmetic; the number is exactly 1 when the
  computed standard deviation is zero, which is the case of every flat image (of fewer than
  \<open>2\<^sup>5\<^sup>3 / c\<close> pixels of luminance \<open>c\<close>); and it is exactly 1 in exact arithmetic.
\<close>

theorem self_similarity_up_to_rounding:
  assumes "valid_image img"
  shows "(\<exists>s. calculate_ssim True binary64 img img = Inr s \<and> 1 - 1 / 2 ^ 51 \<le> s \<and> s \<le> 1 \<and>
            (np_std binary64 (luminance img) = 0 \<longrightarrow> s = 1) \<and>
            (list_all (\<lambda>v. v = c) (concat (convert_L img)) \<and>
               length (luminance img) * c < 2 ^ 53 \<longrightarrow> s = 1)) \<and>
         calculate_ssim True exact img img = Inr 1"
proof -
  have ne: "luminance img \<noteq> []"
    using assms
    by (cases "pixels img")
       (auto simp: valid_image_def rectangular_def ncols_def luminance_def convert_L_def)
  have flat: "np_std binary64 (luminance img) = 0"
    if "list_all (\<lambda>v. v = c) (concat (convert_L img))" "length (luminance img) * c < 2 ^ 53"
  proof -
    have "luminance img = replicate (length (luminance img)) (real c)"
      using flat_list_replicate[OF that(1)] by (simp add: luminance_def)
    moreover have "np_std binary64 (replicate (length (luminance img)) (real c)) = 0"
      using ne that(2) by (intro np_std_flat) simp_all
    ultimately show ?thesis by simp
  qed
  obtain s where s: "calculate_ssim True binary64 img img = Inr s" "1 - 4 * (1 / 2 ^ 53) \<le> s"
    "s \<le> 1" "np_std binary64 (luminance img) = 0 \<longrightarrow> s = 1"
    using self_similarity_bound[of binary64 "1 / 2 ^ 53" img, OF binary64_rel _ _ assms]
    by auto
  then have "\<exists>s. calculate_ssim True binary64 img img = Inr s \<and> 1 - 1 / 2 ^ 51 \<le> s \<and> s \<le> 1 \<and>
           (np_std binary64 (luminance img) = 0 \<longrightarrow> s = 1) \<and>
           (list_all (\<lambda>v. v = c) (concat (convert_L img)) \<and> length (luminance img) * c < 2 ^ 53
              \<longrightarrow> s = 1)"
    using flat by (intro exI[of _ s]) auto
  moreover obtain t where "calculate_ssim True exact img img = Inr t" "1 - 4 * 0 \<le> t" "t \<le> 1"
    using self_similarity_bound[of exact 0 img, OF exact_rel _ _ assms] by auto
  then have "calculate_ssim True exact img img = Inr 1" by simp
  ultimately show ?thesis by blast
qed

theorem self_similarity_up_to_rounding_witness:
  "valid_image img_flat \<and> calculate_ssim True binary64 img_flat img_flat = Inr 1"
proof -
  have "list_all (\<lambda>v. v = 5) (concat (convert_L img_flat))"
    "length (luminance img_flat) * 5 < 2 ^ 53"
    by (simp_all add: luminance_img_flat) (simp add: convert_L_def img_flat_def)
  with self_similarity_up_to_rounding[OF valid_img_flat, of 5]
  show ?thesis using valid_img_flat by auto
qed

text \<open>
  C8 as stated fails in binary64: the 2x2 image with luminances 0, 2, 4, 2 has variance 2,
  its deviation is the double nearest to the square root of 2, whose square rounds to
  \<open>2 + 2\<^sup>-\<^sup>5\<^sup>1\<close>, and 2 divided by that rounds to \<open>1 - 2\<^sup>-\<^sup>5\<^sup>2\<close>
  (0.9999999999999998), which the clamp leaves as it is.
\<close>

theorem self_similarity_counterexample:
  "valid_image img_2x2 \<and> mode img_2x2 = ModeL \<and>
   calculate_ssim True binary64 img_2x2 img_2x2 = Inr (1 - 1 / 2 ^ 52) \<and>
   calculate_ssim True binary64 img_2x2 img_2x2 \<noteq> Inr 1"
  using valid_img_2x2 ssim_2x2 by (simp add: img_2x2_def)

subsection \<open>The comparator: supporting lemmas\<close>

lemma exists_image_save:
  "exists (image_save img p fs) q \<longleftrightarrow> q = p \<or> exists fs q"
  by (auto simp: exists_def image_save_def)

lemma exists_mkdir: "exists (mkdir d fs) q \<longleftrightarrow> q = d \<or> exists fs q"
  by (auto simp: exists_def mkdir_def)

lemma image_open_save:
  "image_open (image_save img p fs) q = (if q = p then Inr img else image_open fs q)"
  by (simp add: image_open_def image_save_def)

lemma image_open_mkdir [simp]: "image_open (mkdir d fs) q = image_open fs q"
  by (simp add: image_open_def mkdir_def)

lemma image_open_exists: "image_open fs q = Inr img \<Longrightarrow> exists fs q"
  by (auto simp: image_open_def exists_def split: option.splits)

lemma compare_bootstrap:
  assumes "HAS_PIL E"
    and "image_open (fsys st) (join (screenshot_dir cfg) (screenshot_name cfg p)) = Inr img"
    and "\<not> exists (fsys st) (join (golden_dir cfg) (screenshot_name cfg p))"
  shows "compare_screenshots E cfg p st =
     Inr (say (GoldenCreated (screenshot_name cfg p))
            (say (Comparing (pos_name p)) st
               \<lparr>fsys := image_save img (join (golden_dir cfg) (screenshot_name cfg p))
                          (mkdir (golden_dir cfg) (fsys st))\<rparr>),
          Some \<lparr>result_map_name = map_name cfg, result_position = pos_name p,
                ssim = 1, mse = Finite 0, passed = True, threshold = arith E (95 / 100)\<rparr>)"
  using assms image_open_exists[OF assms(2)]
  by (simp add: compare_screenshots_def Let_def)

lemma compare_existing:
  assumes "HAS_PIL E"
    and "image_open (fsys st) (join (screenshot_dir cfg) (screenshot_name cfg p)) = Inr img_test"
    and "image_open (fsys st) (join (golden_dir cfg) (screenshot_name cfg p)) = Inr img_golden"
    and "calculate_ssim True (arith E) img_test img_golden = Inr s"
  shows "\<exists>st' m. compare_screenshots E cfg p st =
     Inr (st', Some \<lparr>result_map_name = map_name cfg, result_position = pos_name p,
                ssim = s, mse = m,
                passed = ((case ssim_threshold p of Some t \<Rightarrow> t | None \<Rightarrow> arith E (95 / 100)) \<le> s),
                threshold = (case ssim_threshold p of Some t \<Rightarrow> t | None \<Rightarrow> arith E (95 / 100))\<rparr>) \<and>
     fsys st' = fsys st \<and> results st' = results st"
  using assms image_open_exists[OF assms(2)] image_open_exists[OF assms(3)]
  by (simp add: compare_screenshots_def Let_def split: prod.splits)

lemma calculate_mse_self:
  assumes "valid_image img"
  shows "calculate_mse True binary64 img img = ([], Finite 0)"
proof -
  let ?xs = "snd (np_array img)"
  have ne: "?xs \<noteq> []"
    using assms
    by (cases "pixels img"; cases "hd (pixels img)"; cases "hd (hd (pixels img))"; cases "mode img")
       (auto simp: valid_image_def rectangular_def ncols_def np_array_def Let_def)
  have "map2 (\<lambda>u v. binary64 (binary64 (real u - real v) * binary64 (real u - real v))) ?xs ?xs
      = replicate (length ?xs) (real 0)"
    by (simp add: zip_same_conv_map comp_def map_replicate_const)
  moreover have "fsum binary64 (replicate (length ?xs) (real 0)) = 0"
    using foldl_binary64_replicate[of 0 "length ?xs" 0] by (simp add: fsum_def)
  ultimately show ?thesis
    using ne by (simp add: calculate_mse_def Let_def np_mean_def)
qed

lemma paths_a [simp]:
  "join (screenshot_dir (cfg_of ps)) (screenshot_name (cfg_of ps) (pos_at ''a'' t)) = ''shots/pl_a.tga''"
  "join (golden_dir (cfg_of ps)) (screenshot_name (cfg_of ps) (pos_at ''a'' t)) = ''golden/pl_a.tga''"
  by (simp_all add: join_def screenshot_name_def cfg_of_def pos_at_def)

lemma env_of_simps [simp]:
  "HAS_PIL (env_of h g) = h" "arith (env_of h g) = binary64" "game (env_of h g) = g"
  by (simp_all add: env_of_def)

lemma new_tester_simps [simp]:
  "fsys (new_tester fs) = fs" "results (new_tester fs) = []" "out (new_tester fs) = []"
  by (simp_all add: new_tester_def)

lemma fs_captured_simps [simp]:
  "image_open (fs_captured img) ''shots/pl_a.tga'' = Inr img"
  "\<not> exists (fs_captured img) ''golden/pl_a.tga''"
  by (auto simp: fs_captured_def image_open_def exists_def image_save_def fs_installed_def)

lemma fs_both_simps [simp]:
  "image_open (fs_both img_test img_golden) ''shots/pl_a.tga'' = Inr img_test"
  "image_open (fs_both img_test img_golden) ''golden/pl_a.tga'' = Inr img_golden"
  by (simp_all add: fs_both_def image_open_save)

lemma mse_shape_mismatch: "calculate_mse True fl img_2x2 img_3x3 = ([DimensionWarning], PosInf)"
  by (simp add: calculate_mse_def np_array_def Let_def img_2x2_def img_3x3_def nrows_def ncols_def)

lemma fs_installed_exe [simp]:
  "exists fs_installed (join (game_dir (cfg_of ps)) ''hl2.sh'')"
  by (simp add: exists_def fs_installed_def join_def cfg_of_def)

text \<open>
  Shapes that differ in the channels only (the same grid, another mode) do not stop the
  comparison: the error is infinite, the warning is printed, and the outcome passes exactly
  when the similarity reaches the threshold.
\<close>

lemma mse_mode_mismatch:
  assumes "mode a \<noteq> mode b"
  shows "calculate_mse True fl a b = ([DimensionWarning], PosInf)"
  using assms
  by (cases "mode a"; cases "mode b") (simp_all add: calculate_mse_def np_array_def Let_def)

lemma channel_mismatch_completes:
  assumes "HAS_PIL E"
    and "image_open (fsys st) (join (screenshot_dir cfg) (screenshot_name cfg p)) = Inr a"
    and "image_open (fsys st) (join (golden_dir cfg) (screenshot_name cfg p)) = Inr b"
    and "valid_image a" "valid_image b"
    and "nrows (pixels a) = nrows (pixels b)" "ncols (pixels a) = ncols (pixels b)"
    and "mode a \<noteq> mode b"
  shows "\<exists>st' r. compare_screenshots E cfg p st = Inr (st', Some r) \<and> mse r = PosInf \<and>
           DimensionWarning \<in> set (out st') \<and> passed r = (threshold r \<le> ssim r)"
  using assms(1) image_open_exists[OF assms(2)] image_open_exists[OF assms(3)] assms(2,3)
    calculate_ssim_same_shape[OF assms(4-7), of "arith E"] mse_mode_mismatch[OF assms(8), of "arith E"]
  by (simp add: compare_screenshots_def Let_def)

lemma threshold_of_outcome:
  assumes "exists (fsys st) (join (golden_dir cfg) (screenshot_name cfg p))"
    and "compare_screenshots E cfg p st = Inr (st', Some r)"
  shows "threshold r = (case ssim_threshold p of Some t \<Rightarrow> t | None \<Rightarrow> arith E (95 / 100)) \<and>
         passed r = (threshold r \<le> ssim r) \<and>
         (ssim_threshold p = Some (9 / 10) \<longrightarrow>
            threshold r = 9 / 10 \<and> (ssim r < 9 / 10 \<longrightarrow> \<not> passed r))"
  using assms unfolding compare_screenshots_def Let_def
  by (auto split: if_splits sum.splits prod.splits)

lemma ssim_2x2_flat: "calculate_ssim True binary64 img_2x2 img_flat = Inr 0"
proof -
  have shape: "nrows (pixels img_2x2) = nrows (pixels img_flat)"
    "ncols (pixels img_2x2) = ncols (pixels img_flat)"
    by (simp_all add: img_2x2_def img_flat_def nrows_def ncols_def)
  have "similarity_spec binary64 (luminance img_2x2) (luminance img_flat) = 0"
    by (simp add: similarity_spec_def Let_def luminance_img_2x2 luminance_img_flat std_flat)
  with calculate_ssim_same_shape[OF valid_img_2x2 valid_img_flat shape, of binary64]
  show ?thesis by simp
qed

lemma compare_2x2_flat:
  "\<exists>st' r. compare_screenshots (env_of True g) (cfg_of []) (pos_at ''a'' (Some (9 / 10)))
      (new_tester (fs_both img_2x2 img_flat)) = Inr (st', Some r) \<and> ssim r = 0"
  using compare_existing[of "env_of True g" "new_tester (fs_both img_2x2 img_flat)" "cfg_of []"
      "pos_at ''a'' (Some (9 / 10))" img_2x2 img_flat 0] ssim_2x2_flat
  by auto

subsection \<open>The comparator: claims\<close>

text \<open>
  C2, as amended. When the candidate artifact of a position is a valid image and the
  reference artifact does not exist, the comparator creates the reference directory, saves
  the candidate as the reference and returns similarity 1, error 0, passed and threshold
  0.95. Comparing the same candidate again, now against that reference, returns error 0
  and a similarity between \<open>1 - 2\<^sup>-\<^sup>5\<^sup>1\<close> and 1 (exactly 1 when the computed deviation is
  zero); its threshold is the position's or 0.95, and it passes exactly when the similarity
  reaches the threshold, so always when the threshold is at most \<open>1 - 2\<^sup>-\<^sup>5\<^sup>1\<close>.
\<close>

theorem bootstrap_then_recompare:
  assumes "HAS_PIL E" "arith E = binary64"
    and "image_open (fsys st) (join (screenshot_dir cfg) (screenshot_name cfg p)) = Inr img"
    and "valid_image img"
    and "\<not> exists (fsys st) (join (golden_dir cfg) (screenshot_name cfg p))"
  shows "\<exists>st1 r1 st2 r2.
     compare_screenshots E cfg p st = Inr (st1, Some r1) \<and>
     ssim r1 = 1 \<and> mse r1 = Finite 0 \<and> passed r1 \<and> threshold r1 = binary64 (95 / 100) \<and>
     golden_dir cfg \<in> dirs (fsys st1) \<and>
     image_open (fsys st1) (join (golden_dir cfg) (screenshot_name cfg p)) = Inr img \<and>
     compare_screenshots E cfg p st1 = Inr (st2, Some r2) \<and>
     1 - 1 / 2 ^ 51 \<le> ssim r2 \<and> ssim r2 \<le> 1 \<and> mse r2 = Finite 0 \<and>
     threshold r2 = (case ssim_threshold p of Some t \<Rightarrow> t | None \<Rightarrow> binary64 (95 / 100)) \<and>
     passed r2 = (threshold r2 \<le> ssim r2) \<and>
     (threshold r2 \<le> 1 - 1 / 2 ^ 51 \<longrightarrow> passed r2) \<and>
     (np_std binary64 (luminance img) = 0 \<longrightarrow> ssim r2 = 1)"
proof -
  let ?test = "join (screenshot_dir cfg) (screenshot_name cfg p)"
  let ?golden = "join (golden_dir cfg) (screenshot_name cfg p)"
  let ?thr = "case ssim_threshold p of Some t \<Rightarrow> t | None \<Rightarrow> binary64 (95 / 100)"
  define st1 where "st1 = say (GoldenCreated (screenshot_name cfg p))
            (say (Comparing (pos_name p)) st
               \<lparr>fsys := image_save img ?golden (mkdir (golden_dir cfg) (fsys st))\<rparr>)"
  define r1 where "r1 = \<lparr>result_map_name = map_name cfg, result_position = pos_name p,
                ssim = 1, mse = Finite 0, passed = True, threshold = binary64 (95 / 100)\<rparr>"
  have first: "compare_screenshots E cfg p st = Inr (st1, Some r1)"
    unfolding st1_def r1_def using compare_bootstrap[OF assms(1,3,5)] assms(2) by simp
  have fs1: "fsys st1 = image_save img ?golden (mkdir (golden_dir cfg) (fsys st))"
    by (simp add: st1_def)
  have test1: "image_open (fsys st1) ?test = Inr img"
    and golden1: "image_open (fsys st1) ?golden = Inr img"
    using assms(3) by (simp_all add: fs1 image_open_save)
  have dir1: "golden_dir cfg \<in> dirs (fsys st1)"
    by (simp add: fs1 image_save_def mkdir_def)
  obtain s where s: "calculate_ssim True binary64 img img = Inr s" "1 - 1 / 2 ^ 51 \<le> s" "s \<le> 1"
    "np_std binary64 (luminance img) = 0 \<longrightarrow> s = 1"
    using self_similarity_bound[of binary64 "1 / 2 ^ 53" img, OF binary64_rel _ _ assms(4)]
    by auto
  obtain st2 m where second: "compare_screenshots E cfg p st1 =
     Inr (st2, Some \<lparr>result_map_name = map_name cfg, result_position = pos_name p,
                ssim = s, mse = m, passed = (?thr \<le> s), threshold = ?thr\<rparr>)"
    using compare_existing[OF assms(1) test1 golden1, of s, unfolded assms(2)] s(1) by auto
  have m: "m = Finite 0"
    using second assms(1,2) test1 golden1 s(1) calculate_mse_self[OF assms(4)]
      image_open_exists[OF test1] image_open_exists[OF golden1]
    by (simp add: compare_screenshots_def Let_def)
  show ?thesis
    using first second s dir1 golden1 m
    by (intro exI[of _ st1] exI[of _ r1] exI[of _ st2]
        exI[of _ "\<lparr>result_map_name = map_name cfg, result_position = pos_name p,
                ssim = s, mse = m, passed = (?thr \<le> s), threshold = ?thr\<rparr>"])
       (auto simp: r1_def)
qed

text \<open>
  The hypotheses of C2 hold for a flat screenshot of position \<open>a\<close> with no golden image:
  the first comparison creates it and passes, the second has similarity 1 and passes.
\<close>

theorem bootstrap_then_recompare_witness:
  "HAS_PIL (env_of True (game_captures img_flat)) \<and>
   arith (env_of True (game_captures img_flat)) = binary64 \<and>
   image_open (fsys (new_tester (fs_captured img_flat)))
     (join (screenshot_dir (cfg_of [])) (screenshot_name (cfg_of []) (pos_at ''a'' None)))
     = Inr img_flat \<and>
   valid_image img_flat \<and>
   \<not> exists (fsys (new_tester (fs_captured img_flat)))
     (join (golden_dir (cfg_of [])) (screenshot_name (cfg_of []) (pos_at ''a'' None))) \<and>
   (\<exists>st1 r1 st2 r2.
      compare_screenshots (env_of True (game_captures img_flat)) (cfg_of []) (pos_at ''a'' None)
        (new_tester (fs_captured img_flat)) = Inr (st1, Some r1) \<and>
      ssim r1 = 1 \<and> mse r1 = Finite 0 \<and> passed r1 \<and> threshold r1 = binary64 (95 / 100) \<and>
      compare_screenshots (env_of True (game_captures img_flat)) (cfg_of []) (pos_at ''a'' None) st1
        = Inr (st2, Some r2) \<and>
      ssim r2 = 1 \<and> passed r2)"
proof -
  have h: "HAS_PIL (env_of True (game_captures img_flat))"
    "arith (env_of True (game_captures img_flat)) = binary64"
    "image_open (fsys (new_tester (fs_captured img_flat)))
      (join (screenshot_dir (cfg_of [])) (screenshot_name (cfg_of []) (pos_at ''a'' None)))
      = Inr img_flat"
    "\<not> exists (fsys (new_tester (fs_captured img_flat)))
      (join (golden_dir (cfg_of [])) (screenshot_name (cfg_of []) (pos_at ''a'' None)))"
    by simp_all
  have std: "np_std binary64 (luminance img_flat) = 0"
    by (simp add: luminance_img_flat std_flat)
  have thr: "ssim_threshold (pos_at ''a'' None) = None" by (simp add: pos_at_def)
  from bootstrap_then_recompare[OF h(1,2,3) valid_img_flat h(4)]
  obtain st1 r1 st2 r2 where c:
    "compare_screenshots (env_of True (game_captures img_flat)) (cfg_of []) (pos_at ''a'' None)
        (new_tester (fs_captured img_flat)) = Inr (st1, Some r1)"
    "ssim r1 = 1" "mse r1 = Finite 0" "passed r1" "threshold r1 = binary64 (95 / 100)"
    "compare_screenshots (env_of True (game_captures img_flat)) (cfg_of []) (pos_at ''a'' None) st1
        = Inr (st2, Some r2)"
    "threshold r2 = (case ssim_threshold (pos_at ''a'' None) of Some t \<Rightarrow> t | None \<Rightarrow> binary64 (95 / 100))"
    "threshold r2 \<le> 1 - 1 / 2 ^ 51 \<longrightarrow> passed r2"
    "np_std binary64 (luminance img_flat) = 0 \<longrightarrow> ssim r2 = 1"
    by blast
  have "ssim r2 = 1" using c(9) std by simp
  moreover have "passed r2" using c(7,8) thr binary64_default_threshold(2) by simp
  ultimately show ?thesis using c(1-6) valid_img_flat h by blast
qed

text \<open>
  C2 as stated fails: with the 2x2 screenshot of luminances 0, 2, 4, 2 and a configured
  threshold of 1.0, the second comparison has similarity \<open>1 - 2\<^sup>-\<^sup>5\<^sup>2\<close> and does not pass.
\<close>

theorem bootstrap_then_recompare_counterexample:
  "\<exists>st1 r1 st2 r2.
      ssim_threshold (pos_at ''a'' (Some 1)) = Some 1 \<and>
      image_open (fs_captured img_2x2) ''shots/pl_a.tga'' = Inr img_2x2 \<and>
      \<not> exists (fs_captured img_2x2) ''golden/pl_a.tga'' \<and>
      compare_screenshots (env_of True (game_captures img_2x2)) (cfg_of []) (pos_at ''a'' (Some 1))
        (new_tester (fs_captured img_2x2)) = Inr (st1, Some r1) \<and>
      ssim r1 = 1 \<and> passed r1 \<and>
      compare_screenshots (env_of True (game_captures img_2x2)) (cfg_of []) (pos_at ''a'' (Some 1)) st1
        = Inr (st2, Some r2) \<and>
      ssim r2 = 1 - 1 / 2 ^ 52 \<and> \<not> passed r2"
proof -
  let ?E = "env_of True (game_captures img_2x2)" and ?p = "pos_at ''a'' (Some 1)"
  let ?st = "new_tester (fs_captured img_2x2)"
  define st1 where "st1 = say (GoldenCreated (screenshot_name (cfg_of []) ?p))
            (say (Comparing (pos_name ?p)) ?st
               \<lparr>fsys := image_save img_2x2 ''golden/pl_a.tga'' (mkdir (golden_dir (cfg_of [])) (fsys ?st))\<rparr>)"
  have first: "compare_screenshots ?E (cfg_of []) ?p ?st =
      Inr (st1, Some \<lparr>result_map_name = map_name (cfg_of []), result_position = pos_name ?p,
                ssim = 1, mse = Finite 0, passed = True, threshold = binary64 (95 / 100)\<rparr>)"
    using compare_bootstrap[of ?E ?st "cfg_of []" ?p img_2x2] by (simp add: st1_def)
  have opened: "image_open (fsys st1) ''shots/pl_a.tga'' = Inr img_2x2"
    "image_open (fsys st1) ''golden/pl_a.tga'' = Inr img_2x2"
    by (simp_all add: st1_def image_open_save)
  have thr: "ssim_threshold ?p = Some 1" by (simp add: pos_at_def)
  from compare_existing[of ?E st1 "cfg_of []" ?p img_2x2 img_2x2 "1 - 1 / 2 ^ 52"] opened ssim_2x2
  obtain st2 m where second: "compare_screenshots ?E (cfg_of []) ?p st1 =
      Inr (st2, Some \<lparr>result_map_name = map_name (cfg_of []), result_position = pos_name ?p,
                ssim = 1 - 1 / 2 ^ 52, mse = m, passed = False, threshold = 1\<rparr>)"
    by (auto simp: thr)
  show ?thesis
    apply (rule exI[of _ st1])
    apply (rule exI[of _ "\<lparr>result_map_name = map_name (cfg_of []), result_position = pos_name ?p,
                ssim = 1, mse = Finite 0, passed = True, threshold = binary64 (95 / 100)\<rparr>"])
    apply (rule exI[of _ st2])
    apply (rule exI[of _ "\<lparr>result_map_name = map_name (cfg_of []), result_position = pos_name ?p,
                ssim = 1 - 1 / 2 ^ 52, mse = m, passed = False, threshold = 1\<rparr>"])
    using first second thr by simp
qed

text \<open>
  C3 fails in the code. For a 2x2 screenshot and a 3x3 golden image \<open>calculate_mse\<close> would give
  the warning and the infinite error, but \<open>calculate_ssim\<close> is called first and raises:
  the comparison returns no outcome, the exception leaves \<open>run\<close>, and the process ends
  with status 1.
\<close>

theorem shape_mismatch_aborts_comparison:
  "calculate_mse True binary64 img_2x2 img_3x3 = ([DimensionWarning], PosInf) \<and>
   compare_screenshots (env_of True (game_captures img_2x2)) (cfg_of [])
     (pos_at ''a'' None) (new_tester (fs_both img_2x2 img_3x3)) = Inl ValueError \<and>
   run (env_of True (game_captures img_2x2)) (cfg_of [pos_at ''a'' None])
     (new_tester (image_save img_3x3 ''golden/pl_a.tga'' fs_installed)) = Inl ValueError \<and>
   main (env_of True (game_captures img_2x2))
     (image_save img_3x3 ''golden/pl_a.tga'' fs_installed) (Loaded (cfg_of [pos_at ''a'' None])) = 1"
proof -
  let ?E = "env_of True (game_captures img_2x2)" and ?p = "pos_at ''a'' None"
  have cmp: "compare_screenshots ?E (cfg_of ps) ?p st = Inl ValueError"
    if "image_open (fsys st) ''shots/pl_a.tga'' = Inr img_2x2"
      "image_open (fsys st) ''golden/pl_a.tga'' = Inr img_3x3" for st ps
    using that image_open_exists[OF that(1)] image_open_exists[OF that(2)]
    by (simp add: compare_screenshots_def Let_def ssim_shape_mismatch)
  have c1: "compare_screenshots ?E (cfg_of []) ?p (new_tester (fs_both img_2x2 img_3x3)) = Inl ValueError"
    by (rule cmp) simp_all
  let ?fs = "image_save img_3x3 ''golden/pl_a.tga'' fs_installed"
  let ?cfg = "cfg_of [?p]"
  let ?st0 = "(new_tester ?fs)\<lparr>fsys := mkdir (golden_dir ?cfg) (mkdir (screenshot_dir ?cfg) ?fs)\<rparr>"
  obtain st1 where l: "launch_game_headless ?E ?cfg ?p ?st0 = (st1, True)"
    "image_open (fsys st1) ''shots/pl_a.tga'' = Inr img_2x2"
    "image_open (fsys st1) ''golden/pl_a.tga'' = Inr img_3x3"
    by (simp add: launch_game_headless_def Let_def exists_mkdir exists_image_save
        game_captures_def image_open_save)
  have "run_positions ?E ?cfg [?p] ?st0 = Inl ValueError"
    using l cmp[OF l(2,3)] by simp
  then have r: "run ?E ?cfg (new_tester ?fs) = Inl ValueError"
    by (simp add: run_def Let_def cfg_of_def)
  then show ?thesis using c1 mse_shape_mismatch by (simp add: main_def)
qed

text \<open>
  C6. When the reference exists, every outcome the comparator returns carries the
  position's configured threshold, or 0.95 when none is configured, and its passed flag is
  true exactly when the similarity is at least that threshold. With a configured
  threshold of 0.90 the recorded threshold is 0.90 and a similarity below it (0.89) does
  not pass. An outcome is returned whenever both images load and the similarity metric
  returns.
\<close>

theorem threshold_decision:
  assumes "exists (fsys st) (join (golden_dir cfg) (screenshot_name cfg p))"
  shows "(compare_screenshots E cfg p st = Inr (st', Some r) \<longrightarrow>
            threshold r = (case ssim_threshold p of Some t \<Rightarrow> t | None \<Rightarrow> arith E (95 / 100)) \<and>
            passed r = (threshold r \<le> ssim r) \<and>
            (ssim_threshold p = Some (9 / 10) \<longrightarrow>
               threshold r = 9 / 10 \<and> (ssim r < 9 / 10 \<longrightarrow> \<not> passed r))) \<and>
         (HAS_PIL E \<and>
          image_open (fsys st) (join (screenshot_dir cfg) (screenshot_name cfg p)) = Inr a \<and>
          image_open (fsys st) (join (golden_dir cfg) (screenshot_name cfg p)) = Inr b \<and>
          calculate_ssim True (arith E) a b = Inr s \<longrightarrow>
            (\<exists>st'' r'. compare_screenshots E cfg p st = Inr (st'', Some r') \<and> ssim r' = s \<and>
               passed r' = ((case ssim_threshold p of Some t \<Rightarrow> t | None \<Rightarrow> arith E (95 / 100)) \<le> s)))"
proof -
  have "\<exists>st'' r'. compare_screenshots E cfg p st = Inr (st'', Some r') \<and> ssim r' = s \<and>
      passed r' = ((case ssim_threshold p of Some t \<Rightarrow> t | None \<Rightarrow> arith E (95 / 100)) \<le> s)"
    if "HAS_PIL E"
      "image_open (fsys st) (join (screenshot_dir cfg) (screenshot_name cfg p)) = Inr a"
      "image_open (fsys st) (join (golden_dir cfg) (screenshot_name cfg p)) = Inr b"
      "calculate_ssim True (arith E) a b = Inr s"
    using compare_existing[OF that] by force
  with threshold_of_outcome[OF assms, of E st' r] show ?thesis by blast
qed

text \<open>
  C6 on a flat golden image and the 2x2 screenshot, with threshold 0.90: the similarity is
  0, the recorded threshold is 0.90 and the outcome does not pass.
\<close>

theorem threshold_decision_witness:
  "exists (fsys (new_tester (fs_both img_2x2 img_flat)))
     (join (golden_dir (cfg_of [])) (screenshot_name (cfg_of []) (pos_at ''a'' (Some (9 / 10))))) \<and>
   (\<exists>st' r. compare_screenshots (env_of True (game_captures img_2x2)) (cfg_of [])
        (pos_at ''a'' (Some (9 / 10))) (new_tester (fs_both img_2x2 img_flat)) = Inr (st', Some r) \<and>
      ssim r = 0 \<and> threshold r = 9 / 10 \<and> \<not> passed r)"
proof -
  let ?p = "pos_at ''a'' (Some (9 / 10))"
  have ex: "exists (fsys (new_tester (fs_both img_2x2 img_flat)))
     (join (golden_dir (cfg_of [])) (screenshot_name (cfg_of []) ?p))"
    using image_open_exists[of "fs_both img_2x2 img_flat" "''golden/pl_a.tga''" img_flat] by simp
  obtain st' r where c: "compare_screenshots (env_of True (game_captures img_2x2)) (cfg_of [])
      ?p (new_tester (fs_both img_2x2 img_flat)) = Inr (st', Some r)" "ssim r = 0"
    using compare_2x2_flat by blast
  have thr: "ssim_threshold ?p = Some (9 / 10)" by (simp add: pos_at_def)
  from threshold_decision[OF ex, where E = "env_of True (game_captures img_2x2)"
      and st' = st' and r = r] thr c(1)
  have "threshold r = 9 / 10 \<and> (ssim r < 9 / 10 \<longrightarrow> \<not> passed r)" by blast
  with c(2) have "threshold r = 9 / 10" "\<not> passed r" by simp_all
  with ex c show ?thesis by blast
qed

text \<open>
  C7, as amended. The threshold recorded in an outcome is the position's configured
  threshold (0.95 when none is configured) when the reference existed, and 0.95 whatever
  the position configures when the reference was created from the candidate.
\<close>

theorem recorded_threshold:
  assumes "compare_screenshots E cfg p st = Inr (st', Some r)"
  shows "threshold r =
     (if exists (fsys st) (join (golden_dir cfg) (screenshot_name cfg p))
      then (case ssim_threshold p of Some t \<Rightarrow> t | None \<Rightarrow> arith E (95 / 100))
      else arith E (95 / 100))"
  using assms unfolding compare_screenshots_def Let_def
  by (auto split: if_splits sum.splits prod.splits)

text \<open>
  C7, as amended, on the same comparison: the recorded threshold is the configured 0.90.
\<close>

theorem recorded_threshold_witness:
  "\<exists>st' r. compare_screenshots (env_of True (game_captures img_2x2)) (cfg_of [])
        (pos_at ''a'' (Some (9 / 10))) (new_tester (fs_both img_2x2 img_flat)) = Inr (st', Some r) \<and>
      threshold r = 9 / 10"
proof -
  let ?p = "pos_at ''a'' (Some (9 / 10))"
  have ex: "exists (fsys (new_tester (fs_both img_2x2 img_flat)))
     (join (golden_dir (cfg_of [])) (screenshot_name (cfg_of []) ?p))"
    using image_open_exists[of "fs_both img_2x2 img_flat" "''golden/pl_a.tga''" img_flat] by simp
  obtain st' r where c: "compare_screenshots (env_of True (game_captures img_2x2)) (cfg_of [])
      ?p (new_tester (fs_both img_2x2 img_flat)) = Inr (st', Some r)"
    using compare_2x2_flat by blast
  have thr: "ssim_threshold ?p = Some (9 / 10)" by (simp add: pos_at_def)
  from recorded_threshold[OF c] ex thr have "threshold r = 9 / 10" by simp
  with c show ?thesis by blast
qed

text \<open>
  C7 as stated fails when the reference is created: the position configures 0.90 and the
  outcome records 0.95.
\<close>

theorem recorded_threshold_counterexample:
  "\<exists>st' r. ssim_threshold (pos_at ''a'' (Some (9 / 10))) = Some (9 / 10) \<and>
      compare_screenshots (env_of True (game_captures img_2x2)) (cfg_of [])
        (pos_at ''a'' (Some (9 / 10))) (new_tester (fs_captured img_2x2)) = Inr (st', Some r) \<and>
      threshold r = binary64 (95 / 100) \<and> threshold r \<noteq> 9 / 10"
  using compare_bootstrap[of "env_of True (game_captures img_2x2)" "new_tester (fs_captured img_2x2)"
      "cfg_of []" "pos_at ''a'' (Some (9 / 10))" img_2x2] binary64_default_threshold(1)
  by (simp add: pos_at_def[of "''a''" "Some (9 / 10)", THEN arg_cong[of _ _ ssim_threshold]])

subsection \<open>The orchestrator: supporting lemmas\<close>

lemma generate_report_cases:
  "generate_report cfg st =
     (if join (screenshot_dir cfg) ''parity_report.html'' \<in> dirs (fsys st)
      then Inl IsADirectoryError
      else Inr (say ReportGenerated
             (st\<lparr>fsys := (fsys st)\<lparr>files := (files (fsys st))
                (join (screenshot_dir cfg) ''parity_report.html'' \<mapsto>
                  ReportFile \<lparr>report_map = map_name cfg, report_total = length (results st),
                     report_passed = length (filter passed (results st)),
                     report_failed = length (filter (\<lambda>r. \<not> passed r) (results st)),
                     report_entries = results st\<rparr>)\<rparr>\<rparr>)))"
  by (simp add: generate_report_def Let_def)

lemma generate_report_ok:
  assumes "generate_report cfg st = Inr st'"
  shows "results st' = results st" "out st' = out st @ [ReportGenerated]"
  using assms by (auto simp: generate_report_cases split: if_splits)

lemma run_unfold:
  "run E cfg (new_tester fs) =
     (case run_positions E cfg (test_positions cfg)
             ((new_tester fs)\<lparr>fsys := mkdir (golden_dir cfg) (mkdir (screenshot_dir cfg) fs)\<rparr>) of
        Inl e \<Rightarrow> Inl e
      | Inr st1 \<Rightarrow>
          if results st1 = [] then Inr (print_summary st1, True)
          else (case generate_report cfg st1 of
                  Inl e \<Rightarrow> Inl e
                | Inr st2 \<Rightarrow> Inr (print_summary st2, list_all passed (results st1))))"
  by (auto simp: run_def Let_def generate_report_ok split: sum.splits)

lemma print_summary_simps [simp]:
  "results (print_summary st) = results st"
  "set (out (print_summary st)) = insert (Summary (length (results st)) (length (filter passed (results st)))) (set (out st))"
  "fsys (print_summary st) = fsys st"
  by (simp_all add: print_summary_def)




lemma run_positions_without_pil:
  assumes "\<not> HAS_PIL E"
  shows "\<exists>st'. run_positions E cfg ps st = Inr st' \<and> results st' = results st"
proof (induction ps arbitrary: st)
  case Nil
  then show ?case by simp
next
  case (Cons p ps)
  obtain st1 b where l: "launch_game_headless E cfg p st = (st1, b)" by fastforce
  have r1: "results st1 = results st" using launch_results[of E cfg p st] l by simp
  have c: "compare_screenshots E cfg p st1 = Inr (say CannotCompare st1, None)"
    using assms by (simp add: compare_screenshots_def)
  show ?case
  proof (cases b)
    case False
    with l Cons.IH[of "say (Skipping (pos_name p)) st1"] r1 show ?thesis by simp
  next
    case True
    with l c Cons.IH[of "say CannotCompare st1"] r1 show ?thesis by simp
  qed
qed



lemma cfg_of_simps [simp]:
  "map_name (cfg_of ps) = ''pl''" "game_dir (cfg_of ps) = ''game''"
  "screenshot_dir (cfg_of ps) = ''shots''" "golden_dir (cfg_of ps) = ''golden''"
  "test_positions (cfg_of ps) = ps"
  by (simp_all add: cfg_of_def)

lemma pos_at_simps [simp]: "pos_name (pos_at n t) = n" "ssim_threshold (pos_at n t) = t"
  by (simp_all add: pos_at_def)

lemma shot_name [simp]: "screenshot_name (cfg_of ps) (pos_at n t) = ''pl_'' @ n @ ''.tga''"
  by (simp add: screenshot_name_def)




subsection \<open>The orchestrator: claims\<close>








text \<open>
  C10. Without the image libraries the comparator returns no outcome for any position and
  any state, every run returns true with no outcome recorded, and the process exits with
  code 0.
\<close>

theorem missing_pil_reports_success:
  assumes "\<not> HAS_PIL E"
  shows "compare_screenshots E cfg p st = Inr (say CannotCompare st, None) \<and>
         (\<exists>st'. run E cfg (new_tester fs) = Inr (st', True) \<and> results st' = []) \<and>
         main E fs (Loaded cfg) = 0"
proof -
  have c: "compare_screenshots E cfg p st = Inr (say CannotCompare st, None)"
    using assms by (simp add: compare_screenshots_def)
  obtain st1 where st1: "run_positions E cfg (test_positions cfg)
       ((new_tester fs)\<lparr>fsys := mkdir (golden_dir cfg) (mkdir (screenshot_dir cfg) fs)\<rparr>) = Inr st1"
    "results st1 = []"
    using run_positions_without_pil[OF assms, of cfg "test_positions cfg"
        "(new_tester fs)\<lparr>fsys := mkdir (golden_dir cfg) (mkdir (screenshot_dir cfg) fs)\<rparr>"]
    by auto
  then have r: "run E cfg (new_tester fs) = Inr (print_summary st1, True)"
    by (simp add: run_unfold)
  then have "main E fs (Loaded cfg) = 0" by (simp add: main_def)
  with c r st1 show ?thesis by simp
qed

text \<open>
  C10 on a run of one position whose screenshot is captured: the launch succeeds, no
  outcome is recorded, the run returns true and the exit code is 0.
\<close>

theorem missing_pil_reports_success_witness:
  "\<not> HAS_PIL (env_of False (game_captures img_flat)) \<and>
   snd (launch_game_headless (env_of False (game_captures img_flat)) (cfg_of [pos_at ''a'' None])
          (pos_at ''a'' None) (new_tester fs_installed)) \<and>
   (\<exists>st'. run (env_of False (game_captures img_flat)) (cfg_of [pos_at ''a'' None])
            (new_tester fs_installed) = Inr (st', True) \<and> results st' = []) \<and>
   main (env_of False (game_captures img_flat)) fs_installed (Loaded (cfg_of [pos_at ''a'' None])) = 0"
proof -
  have h: "\<not> HAS_PIL (env_of False (game_captures img_flat))" by simp
  have l: "snd (launch_game_headless (env_of False (game_captures img_flat))
      (cfg_of [pos_at ''a'' None]) (pos_at ''a'' None) (new_tester fs_installed))"
    by (simp add: launch_game_headless_def Let_def join_def exists_def fs_installed_def game_captures_def image_save_def)
  from missing_pil_reports_success[OF h, of "cfg_of [pos_at ''a'' None]" _ _ fs_installed] h l
  show ?thesis by blast
qed

end
